theory Spec2Isabelle
  imports Main
begin

section \<open>Data model\<close>

text \<open>
  The three Pinia stores of the application (useMyAuthStore, useUserStore, useThemeStore)
  are embedded as functions over an explicit state. The state has two layers: the reactive
  references owned by the stores (\<open>userData\<close>, \<open>activeTheme\<close>) and the browser side that
  the stores reach through \<open>localStorage\<close> and the PocketBase client (\<open>pb.authStore\<close>, the
  record objects the client hands out).
\<close>

text \<open>
  A user record as the PocketBase client returns it (\<open>record: any\<close> in the source);
  the fields are those that \<open>mapAuthDataToUser\<close> reads, each holding a string, as the
  text fields of the backend do (an unset text field is the empty string). A record that
  lacks one of these properties is not a value of this type, and nothing below speaks
  about it. Field names carry the prefix \<open>rec_\<close> because the profile type below has
  fields of the same names.
\<close>

record pb_record =
  rec_id :: string
  rec_name :: string
  rec_email :: string
  rec_avatar :: string
  rec_created :: string
  rec_themeMode :: string

text \<open>
  Record objects live in a store of objects: \<open>authData.record\<close> is a reference, and the
  assignment \<open>record.themeMode = ...\<close> writes through it.
\<close>

type_synonym ref = nat

record authData =
  auth_token :: string
  auth_record :: ref

datatype js_file = File string

text \<open>
  \<open>UserType\<close>, with the fields of the object literal that \<open>mapAuthDataToUser\<close> returns
  (\<open>id\<close> is written \<open>id'\<close>: the name is taken by the identity function).
\<close>

record UserType =
  id' :: string
  token :: string
  name :: string
  email :: string
  avatar :: string
  created :: string
  themeMode :: string
  password :: string
  passwordConfirm :: string
  oldPassword :: string
  avatarFile :: "js_file option"

record authStore =
  as_token :: string
  as_record :: "ref option"

record browser =
  localStorage :: "string \<rightharpoonup> string"
  pb_authStore :: authStore
  objects :: "ref \<Rightarrow> pb_record"

record world =
  userData :: "UserType option"
  activeTheme :: string
  browser :: browser

section \<open>JavaScript runtime\<close>

subsection \<open>Thrown values\<close>

text \<open>
  What a \<open>catch (error: any)\<close> clause can receive: a TypeError of the engine, the
  client's ClientResponseError, a plain Error, or a value without a \<open>message\<close>.
\<close>

datatype thrown =
    TypeError string
  | ClientResponseError string
  | Error string
  | Thrown_value

fun message_of :: "thrown \<Rightarrow> string option" where
  "message_of (TypeError m) = Some m"
| "message_of (ClientResponseError m) = Some m"
| "message_of (Error m) = Some m"
| "message_of Thrown_value = None"

text \<open>
  \<open>a || d\<close> on a string that may be null or undefined: the left operand is falsy when it
  is absent and when it is the empty string.
\<close>

definition or_default :: "string option \<Rightarrow> string \<Rightarrow> string" where
  "or_default v d = (case v of None \<Rightarrow> d | Some x \<Rightarrow> if x = [] then d else x)"

text \<open>\<open>throw new Error(error?.message || fallback)\<close>, the body of every catch clause
  of the stores but the one of authRefresh.\<close>

definition rethrow :: "thrown \<Rightarrow> string \<Rightarrow> thrown" where
  "rethrow e fallback = Error (or_default (message_of e) fallback)"

subsection \<open>Numbers as text\<close>

text \<open>
  The numbers met here are the integral results of the Date getters, or NaN for an
  invalid date: \<open>None\<close> stands for NaN.
\<close>

type_synonym js_number = "int option"

definition digit_char :: "nat \<Rightarrow> char" where
  "digit_char n = char_of (48 + n)"

fun string_of_nat :: "nat \<Rightarrow> string" where
  "string_of_nat n =
     (if n < 10 then [digit_char n] else string_of_nat (n div 10) @ [digit_char (n mod 10)])"

declare string_of_nat.simps [simp del]

definition String_number :: "js_number \<Rightarrow> string" where
  "String_number x =
     (case x of
        None \<Rightarrow> ''NaN''
      | Some i \<Rightarrow> if i < 0 then CHR ''-'' # string_of_nat (nat (- i)) else string_of_nat (nat i))"

text \<open>\<open>s.padStart(n, fill)\<close>: the fill string is repeated and cut to the missing length.\<close>

definition padStart :: "nat \<Rightarrow> string \<Rightarrow> string \<Rightarrow> string" where
  "padStart n fill s =
     (if n \<le> length s \<or> fill = [] then s
      else take (n - length s) (concat (replicate (n - length s) fill)) @ s)"

subsection \<open>Dates\<close>

text \<open>
  A Date holds a time value, milliseconds since 1970-01-01T00:00:00Z, or NaN. The
  getters \<open>getDate\<close>, \<open>getMonth\<close> and \<open>getFullYear\<close> read the fields of the local
  time \<open>t + LocalTZA(t)\<close>; the offset of the local time zone is a parameter of the host.
  The calendar arithmetic is that of the proleptic Gregorian calendar, as the language
  standard has it.
\<close>

definition msPerDay :: int where
  "msPerDay = 86400000"

definition Day :: "int \<Rightarrow> int" where
  "Day t = t div msPerDay"

definition leap_year :: "int \<Rightarrow> bool" where
  "leap_year y = (y mod 4 = 0 \<and> (y mod 100 \<noteq> 0 \<or> y mod 400 = 0))"

definition days_in_month :: "int \<Rightarrow> int \<Rightarrow> int" where
  "days_in_month y m =
     (if m = 2 then (if leap_year y then 29 else 28)
      else if m = 4 \<or> m = 6 \<or> m = 9 \<or> m = 11 then 30 else 31)"

text \<open>Day number (days since 1970-01-01) of a calendar date, months counted from 1.\<close>

definition days_from_civil :: "int \<Rightarrow> int \<Rightarrow> int \<Rightarrow> int" where
  "days_from_civil y m d =
     (let y1 = (if m \<le> 2 then y - 1 else y);
          era = y1 div 400;
          yoe = y1 mod 400;
          mp = (if m > 2 then m - 3 else m + 9);
          doy = (153 * mp + 2) div 5 + d - 1;
          doe = yoe * 365 + yoe div 4 - yoe div 100 + doy
      in era * 146097 + doe - 719468)"

text \<open>Calendar date (year, month from 1, day of month) of a day number.\<close>

definition civil_from_days :: "int \<Rightarrow> int \<times> int \<times> int" where
  "civil_from_days z =
     (let z1 = z + 719468;
          era = z1 div 146097;
          doe = z1 mod 146097;
          yoe = (doe - doe div 1460 + doe div 36524 - doe div 146096) div 365;
          doy = doe - (365 * yoe + yoe div 4 - yoe div 100);
          mp = (5 * doy + 2) div 153;
          d = doy - (153 * mp + 2) div 5 + 1;
          m = (if mp < 10 then mp + 3 else mp - 9);
          y = yoe + era * 400 + (if m \<le> 2 then 1 else 0)
      in (y, m, d))"

definition YearFromTime :: "int \<Rightarrow> int" where
  "YearFromTime t = fst (civil_from_days (Day t))"

definition MonthFromTime :: "int \<Rightarrow> int" where
  "MonthFromTime t = fst (snd (civil_from_days (Day t))) - 1"

definition DateFromTime :: "int \<Rightarrow> int" where
  "DateFromTime t = snd (snd (civil_from_days (Day t)))"

definition TimeClip :: "int \<Rightarrow> js_number" where
  "TimeClip t = (if \<bar>t\<bar> > 8640000000000000 then None else Some t)"

text \<open>
  Reading a run of decimal digits; \<open>None\<close> when the text is empty or has another character.
\<close>

definition is_digit :: "char \<Rightarrow> bool" where
  "is_digit c = ((48::nat) \<le> of_char c \<and> of_char c \<le> (57::nat))"

definition digits_value :: "string \<Rightarrow> int option" where
  "digits_value s =
     (if s \<noteq> [] \<and> list_all is_digit s
      then Some (foldl (\<lambda>acc c. 10 * acc + (int (of_char c) - 48)) 0 s)
      else None)"

text \<open>
  The Date Time String Format of the language standard, in the two forms a backend
  timestamp takes: \<open>YYYY-MM-DDTHH:mm:ssZ\<close> and \<open>YYYY-MM-DDTHH:mm:ss.sssZ\<close>, with every
  field in range. Any other text is left to the host's own parsing (see \<open>Date_parse\<close>).
\<close>

definition parse_iso_utc :: "string \<Rightarrow> int option" where
  "parse_iso_utc s =
     (if (length s = 20 \<or> length s = 24)
         \<and> s ! 4 = CHR ''-'' \<and> s ! 7 = CHR ''-'' \<and> s ! 10 = CHR ''T''
         \<and> s ! 13 = CHR '':'' \<and> s ! 16 = CHR '':'' \<and> last s = CHR ''Z''
         \<and> (length s = 24 \<longrightarrow> s ! 19 = CHR ''.'')
      then
        (case (digits_value (take 4 s), digits_value (take 2 (drop 5 s)),
               digits_value (take 2 (drop 8 s)), digits_value (take 2 (drop 11 s)),
               digits_value (take 2 (drop 14 s)), digits_value (take 2 (drop 17 s)),
               (if length s = 24 then digits_value (take 3 (drop 20 s)) else Some 0)) of
           (Some y, Some m, Some d, Some h, Some mi, Some sec, Some ms) \<Rightarrow>
             if 1 \<le> m \<and> m \<le> 12 \<and> 1 \<le> d \<and> d \<le> days_in_month y m
                \<and> h \<le> 23 \<and> mi \<le> 59 \<and> sec \<le> 59
             then Some (days_from_civil y m d * msPerDay
                        + h * 3600000 + mi * 60000 + sec * 1000 + ms)
             else None
         | _ \<Rightarrow> None)
      else None)"

text \<open>
  The parameters of the host: the offset of local time (milliseconds to add to a UTC time
  value), the host's parsing of date texts outside the standard format, and the message
  of the TypeError raised by reading a property of null.
\<close>

record host =
  LocalTZA :: "int \<Rightarrow> int"
  parse_other :: "string \<Rightarrow> int option"
  null_read_message :: "string \<Rightarrow> string"

definition Date_parse :: "host \<Rightarrow> string \<Rightarrow> js_number" where
  "Date_parse h s =
     (case parse_iso_utc s of
        Some t \<Rightarrow> TimeClip t
      | None \<Rightarrow> (case parse_other h s of None \<Rightarrow> None | Some t \<Rightarrow> TimeClip t))"

definition LocalTime :: "host \<Rightarrow> int \<Rightarrow> int" where
  "LocalTime h t = t + LocalTZA h t"

definition getDate :: "host \<Rightarrow> js_number \<Rightarrow> js_number" where
  "getDate h d = map_option (\<lambda>t. DateFromTime (LocalTime h t)) d"

definition getMonth :: "host \<Rightarrow> js_number \<Rightarrow> js_number" where
  "getMonth h d = map_option (\<lambda>t. MonthFromTime (LocalTime h t)) d"

definition getFullYear :: "host \<Rightarrow> js_number \<Rightarrow> js_number" where
  "getFullYear h d = map_option (\<lambda>t. YearFromTime (LocalTime h t)) d"

subsection \<open>JSON.stringify\<close>

text \<open>
  The values that occur in a profile object: null, strings, File objects and objects.
  An object is the list of its own enumerable properties in insertion order, the order
  in which \<open>JSON.stringify\<close> writes them.
\<close>

datatype jsval =
    JNull
  | JString string
  | JFile js_file
  | JObject "(string \<times> jsval) list"

definition hex_digit :: "nat \<Rightarrow> char" where
  "hex_digit n = (if n < 10 then char_of (48 + n) else char_of (87 + n))"

text \<open>
  The escapes of QuoteJSONString: the quotation mark (0x22) and the reverse solidus (0x5C)
  take a reverse solidus; backspace, form feed, line feed, carriage return and tab have short
  escapes; any other character below 0x20 is written \<open>\u00\<close> and two hexadecimal digits.
\<close>

definition escape_char :: "char \<Rightarrow> string" where
  "escape_char c =
     (if c = CHR 0x22 then [CHR 0x5C, CHR 0x22]
      else if c = CHR 0x5C then [CHR 0x5C, CHR 0x5C]
      else if c = CHR 0x08 then [CHR 0x5C, CHR ''b'']
      else if c = CHR 0x0C then [CHR 0x5C, CHR ''f'']
      else if c = CHR 0x0A then [CHR 0x5C, CHR ''n'']
      else if c = CHR 0x0D then [CHR 0x5C, CHR ''r'']
      else if c = CHR 0x09 then [CHR 0x5C, CHR ''t'']
      else if (of_char c :: nat) < 32
        then [CHR 0x5C, CHR ''u'', CHR ''0'', CHR ''0'',
              hex_digit (of_char c div 16), hex_digit (of_char c mod 16)]
      else [c])"

definition QuoteJSONString :: "string \<Rightarrow> string" where
  "QuoteJSONString s = CHR 0x22 # concat (map escape_char s) @ [CHR 0x22]"

fun join_commas :: "string list \<Rightarrow> string" where
  "join_commas [] = []"
| "join_commas [x] = x"
| "join_commas (x # y # ys) = x @ '','' @ join_commas (y # ys)"

text \<open>A File has no own enumerable property and no \<open>toJSON\<close>: it is written \<open>{}\<close>.\<close>

fun JSON_stringify :: "jsval \<Rightarrow> string" where
  "JSON_stringify JNull = ''null''"
| "JSON_stringify (JString s) = QuoteJSONString s"
| "JSON_stringify (JFile f) = ''{}''"
| "JSON_stringify (JObject kvs) =
     ''{'' @ join_commas (map (\<lambda>kv. QuoteJSONString (fst kv) @ '':'' @ JSON_stringify (snd kv)) kvs)
     @ ''}''"

text \<open>
  Structural deep equality of two values, as the specification words the comparison:
  objects are equal when they have the same property names and deep-equal values under
  each name, whatever the order of the properties.
\<close>

fun deep_equal :: "jsval \<Rightarrow> jsval \<Rightarrow> bool" where
  "deep_equal JNull JNull = True"
| "deep_equal (JString a) (JString b) = (a = b)"
| "deep_equal (JFile f) (JFile g) = (f = g)"
| "deep_equal (JObject a) (JObject b) =
     (list_all (\<lambda>k. k \<in> set (map fst a)) (map fst b)
      \<and> list_all (\<lambda>kv. case map_of b (fst kv) of
                          None \<Rightarrow> False
                        | Some w \<Rightarrow> deep_equal (snd kv) w) a)"
| "deep_equal _ _ = False"

section \<open>The PocketBase client\<close>

text \<open>
  The client library is not part of the repository. Its operations are parameters of the
  model: a request takes the browser side of the state (the client keeps its session in
  \<open>pb.authStore\<close> and \<open>localStorage\<close>, and allocates the records it returns) and gives
  either the thrown value of a rejected promise or the result, with the new browser side.
  The first argument of a request is the collection name.
\<close>

record create_body =
  body_email :: string
  body_emailVisibility :: bool
  body_name :: string
  body_themeMode :: string
  body_password :: string
  body_passwordConfirm :: string

record NewUserType =
  new_email :: string
  new_name :: string
  new_themeMode :: string
  new_password :: string
  new_passwordConfirm :: string

datatype newData = Profile UserType | FormData "(string \<times> string) list"

record pocketbase =
  getURL :: "pb_record \<Rightarrow> string \<Rightarrow> string \<Rightarrow> string"
  isValid :: "authStore \<Rightarrow> bool"
  authWithPassword :: "string \<Rightarrow> string \<Rightarrow> string \<Rightarrow> browser \<Rightarrow> (thrown + authData) \<times> browser"
  authWithOAuth2 :: "string \<Rightarrow> string \<Rightarrow> browser \<Rightarrow> (thrown + authData) \<times> browser"
  authRefresh_request :: "string \<Rightarrow> browser \<Rightarrow> (thrown + authData) \<times> browser"
  create :: "string \<Rightarrow> create_body \<Rightarrow> browser \<Rightarrow> (thrown + unit) \<times> browser"
  update :: "string \<Rightarrow> string \<Rightarrow> newData \<Rightarrow> browser \<Rightarrow> (thrown + unit) \<times> browser"
  requestEmailChange :: "string \<Rightarrow> string \<Rightarrow> browser \<Rightarrow> (thrown + unit) \<times> browser"
  delete :: "string \<Rightarrow> string \<Rightarrow> browser \<Rightarrow> (thrown + unit) \<times> browser"

text \<open>\<open>pb.authStore.clear()\<close> empties the token and drops the record.\<close>

definition authStore_clear :: "world \<Rightarrow> world" where
  "authStore_clear s =
     s\<lparr>browser := (browser s)\<lparr>pb_authStore := \<lparr>as_token = [], as_record = None\<rparr>\<rparr>\<rparr>"

section \<open>Browser storage\<close>

definition getItem :: "string \<Rightarrow> world \<Rightarrow> string option" where
  "getItem k s = localStorage (browser s) k"

definition setItem :: "string \<Rightarrow> string \<Rightarrow> world \<Rightarrow> world" where
  "setItem k v s = s\<lparr>browser := (browser s)\<lparr>localStorage := (localStorage (browser s))(k \<mapsto> v)\<rparr>\<rparr>"

definition removeItem :: "string \<Rightarrow> world \<Rightarrow> world" where
  "removeItem k s = s\<lparr>browser := (browser s)\<lparr>localStorage := (localStorage (browser s))(k := None)\<rparr>\<rparr>"

section \<open>Theme store (useThemeStore)\<close>

definition setTheme :: "world \<Rightarrow> world" where
  "setTheme s =
     (let s1 = (case userData s of
                  Some u \<Rightarrow> s\<lparr>activeTheme := themeMode u\<rparr>
                | None \<Rightarrow> s\<lparr>activeTheme := or_default (getItem ''theme'' s) ''forest''\<rparr>)
      in setItem ''theme'' (activeTheme s1) s1)"

definition changeTheme :: "world \<Rightarrow> world" where
  "changeTheme s =
     s\<lparr>activeTheme := (if activeTheme s = ''forest'' then ''winter'' else ''forest'')\<rparr>"

section \<open>User store (useUserStore)\<close>

definition saveUserData :: "UserType \<Rightarrow> world \<Rightarrow> world" where
  "saveUserData authData s = s\<lparr>userData := Some authData\<rparr>"

definition clearUser :: "world \<Rightarrow> world" where
  "clearUser s = s\<lparr>userData := None\<rparr>"

text \<open>
  updateUser. The argument \<open>userData.value!.id\<close> is evaluated inside the try block, before
  the request is sent: with no profile held the read of \<open>id\<close> raises the engine's TypeError
  there, and the catch clause receives it like any other thrown value.
\<close>

definition updateUser :: "host \<Rightarrow> pocketbase \<Rightarrow> newData \<Rightarrow> world \<Rightarrow> (thrown + bool) \<times> world" where
  "updateUser h pb newData s =
     (case userData s of
        None \<Rightarrow>
          (Inl (rethrow (TypeError (null_read_message h ''id''))
                  ''Failed to update user data. Please try again.''), s)
      | Some u \<Rightarrow>
          (case update pb ''users'' (id' u) newData (browser s) of
             (Inr _, b) \<Rightarrow> (Inr True, s\<lparr>browser := b\<rparr>)
           | (Inl e, b) \<Rightarrow>
               (Inl (rethrow e ''Failed to update user data. Please try again.''),
                s\<lparr>browser := b\<rparr>)))"

text \<open>
  The object that a profile is: the properties in the order of the object literal of
  \<open>mapAuthDataToUser\<close>.
\<close>

definition UserType_object :: "UserType \<Rightarrow> jsval" where
  "UserType_object u =
     JObject
       [(''id'', JString (id' u)),
        (''token'', JString (token u)),
        (''name'', JString (name u)),
        (''email'', JString (email u)),
        (''avatar'', JString (avatar u)),
        (''created'', JString (created u)),
        (''themeMode'', JString (themeMode u)),
        (''password'', JString (password u)),
        (''passwordConfirm'', JString (passwordConfirm u)),
        (''oldPassword'', JString (oldPassword u)),
        (''avatarFile'', (case avatarFile u of None \<Rightarrow> JNull | Some f \<Rightarrow> JFile f))]"

definition held_value :: "world \<Rightarrow> jsval" where
  "held_value s = (case userData s of None \<Rightarrow> JNull | Some u \<Rightarrow> UserType_object u)"

text \<open>
  userDataHasEdited; the value is the one the returned promise resolves to. The candidate is
  the object the caller passes, with its properties in the caller's order; the held profile
  is an object built by \<open>mapAuthDataToUser\<close>, the argument of every call of
  \<open>saveUserData\<close> in the source, and \<open>JSON.stringify(null)\<close> is the text \<open>null\<close>.
\<close>

definition userDataHasEdited :: "jsval \<Rightarrow> world \<Rightarrow> bool" where
  "userDataHasEdited data s = (JSON_stringify data \<noteq> JSON_stringify (held_value s))"

section \<open>Authentication store (useMyAuthStore)\<close>

definition format_created :: "host \<Rightarrow> string \<Rightarrow> string" where
  "format_created h c =
     (let d = Date_parse h c
      in padStart 2 ''0'' (String_number (getDate h d)) @ ''-''
         @ padStart 2 ''0'' (String_number (map_option (\<lambda>m. m + 1) (getMonth h d))) @ ''-''
         @ String_number (getFullYear h d))"

text \<open>\<open>record.themeMode = v\<close>, a write to the record object behind the reference.\<close>

definition write_themeMode :: "ref \<Rightarrow> string \<Rightarrow> world \<Rightarrow> world" where
  "write_themeMode r v s =
     s\<lparr>browser := (browser s)\<lparr>objects :=
          (objects (browser s))(r := (objects (browser s) r)\<lparr>rec_themeMode := v\<rparr>)\<rparr>\<rparr>"

text \<open>
  mapAuthDataToUser gives the profile and the state it leaves: the function writes to the
  record it was given when the record's theme is empty.
\<close>

definition mapAuthDataToUser :: "host \<Rightarrow> pocketbase \<Rightarrow> authData \<Rightarrow> world \<Rightarrow> UserType \<times> world" where
  "mapAuthDataToUser h pb a s =
     (let r = auth_record a;
          record = objects (browser s) r;
          avatar_url = (if rec_avatar record \<noteq> []
                        then getURL pb record (rec_avatar record) ''100x250'' else []);
          created_text = format_created h (rec_created record);
          s1 = (if rec_themeMode record = [] then write_themeMode r (activeTheme s) s else s);
          record1 = objects (browser s1) r
      in (\<lparr>id' = rec_id record1,
           token = auth_token a,
           name = rec_name record1,
           email = rec_email record1,
           avatar = avatar_url,
           created = created_text,
           themeMode = rec_themeMode record1,
           password = [],
           passwordConfirm = [],
           oldPassword = [],
           avatarFile = None\<rparr>, s1))"

definition login :: "host \<Rightarrow> pocketbase \<Rightarrow> string \<Rightarrow> string \<Rightarrow> world \<Rightarrow> (thrown + authData) \<times> world" where
  "login h pb email_arg password_arg s =
     (case authWithPassword pb ''users'' email_arg password_arg (browser s) of
        (Inl e, b) \<Rightarrow>
          (Inl (rethrow e ''Login failed. Please check your credentials.''), s\<lparr>browser := b\<rparr>)
      | (Inr a, b) \<Rightarrow>
          (let (u, s1) = mapAuthDataToUser h pb a (s\<lparr>browser := b\<rparr>)
           in (Inr a, saveUserData u s1)))"

definition loginWithGoogle :: "host \<Rightarrow> pocketbase \<Rightarrow> world \<Rightarrow> (thrown + authData) \<times> world" where
  "loginWithGoogle h pb s =
     (case authWithOAuth2 pb ''users'' ''google'' (browser s) of
        (Inl e, b) \<Rightarrow>
          (Inl (rethrow e ''Google login failed. Please try again.''), s\<lparr>browser := b\<rparr>)
      | (Inr a, b) \<Rightarrow>
          (let (u, s1) = mapAuthDataToUser h pb a (s\<lparr>browser := b\<rparr>)
           in (Inr a, saveUserData u s1)))"

definition createAccount :: "host \<Rightarrow> pocketbase \<Rightarrow> NewUserType \<Rightarrow> world \<Rightarrow> (thrown + authData) \<times> world" where
  "createAccount h pb newUser s =
     (let data = \<lparr>body_email = new_email newUser,
                  body_emailVisibility = False,
                  body_name = new_name newUser,
                  body_themeMode = new_themeMode newUser,
                  body_password = new_password newUser,
                  body_passwordConfirm = new_passwordConfirm newUser\<rparr>
      in case create pb ''users'' data (browser s) of
           (Inl e, b) \<Rightarrow>
             (Inl (rethrow e ''Account creation failed. Please try again.''), s\<lparr>browser := b\<rparr>)
         | (Inr _, b) \<Rightarrow>
             (case login h pb (new_email newUser) (new_password newUser) (s\<lparr>browser := b\<rparr>) of
                (Inl e, s1) \<Rightarrow>
                  (Inl (rethrow e ''Account creation failed. Please try again.''), s1)
              | (Inr a, s1) \<Rightarrow>
                  (let (u, s2) = mapAuthDataToUser h pb a s1
                   in (Inr a, saveUserData u s2))))"

definition logout :: "world \<Rightarrow> world" where
  "logout s = clearUser (removeItem ''pocketbase_auth'' (authStore_clear s))"

text \<open>
  authRefresh. Both the branch of an invalid session and the catch clause run the three
  clearing statements; the function has no throw statement of its own.
\<close>

definition authRefresh :: "host \<Rightarrow> pocketbase \<Rightarrow> world \<Rightarrow> (thrown + unit) \<times> world" where
  "authRefresh h pb s =
     (if \<not> isValid pb (pb_authStore (browser s))
      then (Inr (), clearUser (removeItem ''pocketbase_auth'' (authStore_clear s)))
      else
        (case authRefresh_request pb ''users'' (browser s) of
           (Inl e, b) \<Rightarrow>
             (Inr (), clearUser (removeItem ''pocketbase_auth'' (authStore_clear (s\<lparr>browser := b\<rparr>))))
         | (Inr a, b) \<Rightarrow>
             (let (u, s1) = mapAuthDataToUser h pb a (s\<lparr>browser := b\<rparr>)
              in (Inr (), saveUserData u s1))))"

definition emailChange :: "pocketbase \<Rightarrow> string \<Rightarrow> world \<Rightarrow> (thrown + unit) \<times> world" where
  "emailChange pb newEmail s =
     (case requestEmailChange pb ''users'' newEmail (browser s) of
        (Inl e, b) \<Rightarrow>
          (Inl (rethrow e ''Email change failed. Please try again.''), s\<lparr>browser := b\<rparr>)
      | (Inr _, b) \<Rightarrow> (Inr (), s\<lparr>browser := b\<rparr>))"

definition deleteAccount :: "host \<Rightarrow> pocketbase \<Rightarrow> world \<Rightarrow> (thrown + unit) \<times> world" where
  "deleteAccount h pb s =
     (case userData s of
        None \<Rightarrow>
          (Inl (rethrow (TypeError (null_read_message h ''id''))
                  ''Account deletion failed. Please try again.''), s)
      | Some u \<Rightarrow>
          (case delete pb ''users'' (id' u) (browser s) of
             (Inl e, b) \<Rightarrow>
               (Inl (rethrow e ''Account deletion failed. Please try again.''), s\<lparr>browser := b\<rparr>)
           | (Inr _, b) \<Rightarrow> (Inr (), s\<lparr>browser := b\<rparr>)))"

section \<open>Example environments\<close>

text \<open>
  Concrete hosts, clients and states at which the properties below are evaluated.
  \<open>world0\<close> is the state in which the stores are created: \<open>ref(null)\<close> for the profile,
  \<open>ref('forest')\<close> for the theme, an empty \<open>localStorage\<close>.
\<close>

definition blank_record :: pb_record where
  "blank_record =
     \<lparr>rec_id = [], rec_name = [], rec_email = [], rec_avatar = [], rec_created = [],
      rec_themeMode = []\<rparr>"

definition ann_record :: pb_record where
  "ann_record =
     \<lparr>rec_id = ''u1'', rec_name = ''Ann'', rec_email = ''a@x.com'', rec_avatar = [],
      rec_created = ''2024-03-05T00:00:00Z'', rec_themeMode = []\<rparr>"

definition world0 :: world where
  "world0 =
     \<lparr>userData = None, activeTheme = ''forest'',
      browser = \<lparr>localStorage = Map.empty,
                 pb_authStore = \<lparr>as_token = [], as_record = None\<rparr>,
                 objects = (\<lambda>r. blank_record)\<rparr>\<rparr>"

text \<open>A host in UTC, and one five hours west of it.\<close>

definition host_utc :: host where
  "host_utc =
     \<lparr>LocalTZA = (\<lambda>t. 0), parse_other = (\<lambda>s. None),
      null_read_message = (\<lambda>p. ''Cannot read properties of null (reading '' @ p @ '')'')\<rparr>"

definition host_west :: host where
  "host_west =
     \<lparr>LocalTZA = (\<lambda>t. - 18000000), parse_other = (\<lambda>s. None),
      null_read_message = (\<lambda>p. ''Cannot read properties of null (reading '' @ p @ '')'')\<rparr>"

text \<open>
  A client whose server accepts every request: a sign-in answers with the token \<open>tok1\<close> and
  Ann's record, which the client allocates at reference 0 and keeps in its auth store.
\<close>

definition sign_in :: "browser \<Rightarrow> (thrown + authData) \<times> browser" where
  "sign_in b =
     (Inr \<lparr>auth_token = ''tok1'', auth_record = 0\<rparr>,
      b\<lparr>localStorage := (localStorage b)(''pocketbase_auth'' \<mapsto> ''tok1''),
        pb_authStore := \<lparr>as_token = ''tok1'', as_record = Some 0\<rparr>,
        objects := (objects b)(0 := ann_record)\<rparr>)"

definition pb_accept :: pocketbase where
  "pb_accept =
     \<lparr>getURL = (\<lambda>r f t. ''/api/files/users/'' @ rec_id r @ ''/'' @ f @ ''?thumb='' @ t),
      isValid = (\<lambda>a. as_token a \<noteq> []),
      authWithPassword = (\<lambda>c e p. sign_in),
      authWithOAuth2 = (\<lambda>c p. sign_in),
      authRefresh_request = (\<lambda>c. sign_in),
      create = (\<lambda>c d b. (Inr (), b)),
      update = (\<lambda>c i d b. (Inr (), b)),
      requestEmailChange = (\<lambda>c e b. (Inr (), b)),
      delete = (\<lambda>c i b. (Inr (), b))\<rparr>"

text \<open>A client whose every request is rejected.\<close>

definition pb_reject :: pocketbase where
  "pb_reject =
     \<lparr>getURL = (\<lambda>r f t. ''/api/files/users/'' @ rec_id r @ ''/'' @ f @ ''?thumb='' @ t),
      isValid = (\<lambda>a. as_token a \<noteq> []),
      authWithPassword = (\<lambda>c e p b. (Inl (ClientResponseError ''Something went wrong.''), b)),
      authWithOAuth2 = (\<lambda>c p b. (Inl (ClientResponseError ''Something went wrong.''), b)),
      authRefresh_request = (\<lambda>c b. (Inl (ClientResponseError ''Something went wrong.''), b)),
      create = (\<lambda>c d b. (Inl (ClientResponseError ''Something went wrong.''), b)),
      update = (\<lambda>c i d b. (Inl (ClientResponseError ''Something went wrong.''), b)),
      requestEmailChange = (\<lambda>c e b. (Inl (ClientResponseError ''Something went wrong.''), b)),
      delete = (\<lambda>c i b. (Inl (ClientResponseError ''Something went wrong.''), b))\<rparr>"

text \<open>The state after Ann has signed in from \<open>world0\<close>.\<close>

definition world_ann :: world where
  "world_ann = snd (login host_utc pb_accept ''a@x.com'' ''secret'' world0)"

text \<open>
  The state in which normalization starts during that sign-in (the client has answered),
  and the authentication result it is given.
\<close>

definition world_signed :: world where
  "world_signed = world0\<lparr>browser := snd (sign_in (browser world0))\<rparr>"

definition ann_auth :: authData where
  "ann_auth = \<lparr>auth_token = ''tok1'', auth_record = 0\<rparr>"

text \<open>Ann's profile as a host in UTC normalizes it while the theme is 'forest'.\<close>

definition ann_profile :: UserType where
  "ann_profile =
     \<lparr>id' = ''u1'', token = ''tok1'', name = ''Ann'', email = ''a@x.com'',
      avatar = [], created = ''05-03-2024'', themeMode = ''forest'',
      password = [], passwordConfirm = [], oldPassword = [], avatarFile = None\<rparr>"

text \<open>
  A candidate with the fields and values of \<open>ann_profile\<close>, built with \<open>name\<close> and
  \<open>email\<close> first, as a form object may be.
\<close>

definition ann_candidate :: jsval where
  "ann_candidate =
     JObject
       [(''name'', JString ''Ann''),
        (''email'', JString ''a@x.com''),
        (''id'', JString ''u1''),
        (''token'', JString ''tok1''),
        (''avatar'', JString []),
        (''created'', JString ''05-03-2024''),
        (''themeMode'', JString ''forest''),
        (''password'', JString []),
        (''passwordConfirm'', JString []),
        (''oldPassword'', JString []),
        (''avatarFile'', JNull)]"

text \<open>The registration form Ann fills in.\<close>

definition ann_new :: NewUserType where
  "ann_new =
     \<lparr>new_email = ''a@x.com'', new_name = ''Ann'', new_themeMode = [],
      new_password = ''secret'', new_passwordConfirm = ''secret''\<rparr>"

text \<open>
  A browser whose 'theme' key holds a name that is neither 'forest' nor 'winter', and the
  state after a profile with an empty theme has been saved and the theme resolved from it.
\<close>

definition world_dracula :: world where
  "world_dracula = setItem ''theme'' ''dracula'' world0"

definition world_unthemed :: world where
  "world_unthemed = setTheme (saveUserData (ann_profile\<lparr>themeMode := []\<rparr>) world_signed)"

section \<open>Evaluation at the examples\<close>

lemma world_ann_userData: "userData world_ann = Some ann_profile"
  by code_simp

lemma world_ann_activeTheme: "activeTheme world_ann = ''forest''"
  by code_simp

lemma world_ann_authStore:
  "pb_authStore (browser world_ann) = \<lparr>as_token = ''tok1'', as_record = Some 0\<rparr>"
  by code_simp

lemma world_ann_session_key: "getItem ''pocketbase_auth'' world_ann = Some ''tok1''"
  by code_simp

lemma world_ann_record: "objects (browser world_ann) 0 = ann_record\<lparr>rec_themeMode := ''forest''\<rparr>"
  by code_simp

lemma world_signed_record: "objects (browser world_signed) 0 = ann_record"
  by code_simp

section \<open>Theme store: properties\<close>

text \<open>
  C8. For an active theme that is one of the two known names, 'forest' and 'winter',
  applying changeTheme twice gives back the state it started from; in particular the
  active theme has its original value.
\<close>

theorem changeTheme_involution:
  "activeTheme s \<in> {''forest'', ''winter''} \<Longrightarrow>
     changeTheme (changeTheme s) = s
     \<and> activeTheme (changeTheme (changeTheme s)) = activeTheme s"
  by (auto simp: changeTheme_def)

theorem changeTheme_involution_witness:
  "activeTheme world0 \<in> {''forest'', ''winter''}
   \<and> changeTheme (changeTheme world0) = world0
   \<and> activeTheme (changeTheme world0) = ''winter''
   \<and> activeTheme (changeTheme (changeTheme world0)) = ''forest''"
proof -
  have h: "activeTheme world0 \<in> {''forest'', ''winter''}"
    by (simp add: world0_def)
  from changeTheme_involution [OF h] show ?thesis
    using h by (simp add: changeTheme_def world0_def)
qed

text \<open>
  C9. setTheme always leaves the active theme it resolved under the 'theme' key of
  localStorage; when no profile is held and the key is absent, the resolved theme is the
  default 'forest'.
\<close>

theorem setTheme_resolves_and_persists:
  "getItem ''theme'' (setTheme s) = Some (activeTheme (setTheme s))
   \<and> (userData s = None \<and> getItem ''theme'' s = None \<longrightarrow>
        activeTheme (setTheme s) = ''forest''
        \<and> getItem ''theme'' (setTheme s) = Some ''forest'')"
  by (simp add: setTheme_def setItem_def getItem_def or_default_def Let_def
           split: option.splits)

theorem setTheme_resolves_and_persists_witness:
  "userData world0 = None \<and> getItem ''theme'' world0 = None
   \<and> activeTheme (setTheme world0) = ''forest''
   \<and> getItem ''theme'' (setTheme world0) = Some ''forest''"
proof -
  have h: "userData world0 = None \<and> getItem ''theme'' world0 = None"
    by (simp add: world0_def getItem_def)
  from setTheme_resolves_and_persists [of world0] h show ?thesis
    by simp
qed

text \<open>
  C2, as the code has it. changeTheme assigns the active theme only: it becomes 'winter'
  when it was 'forest', and 'forest' in every other case, so that a theme that is one of
  the two known names is flipped to the other one. It writes nothing to localStorage: the
  browser side of the state, and with it the 'theme' key, is left as it was, and so is the
  held profile.
\<close>

theorem changeTheme_flips_in_memory_only:
  "activeTheme (changeTheme s) = (if activeTheme s = ''forest'' then ''winter'' else ''forest'')
   \<and> browser (changeTheme s) = browser s
   \<and> getItem ''theme'' (changeTheme s) = getItem ''theme'' s
   \<and> userData (changeTheme s) = userData s
   \<and> activeTheme (changeTheme s) \<in> {''forest'', ''winter''}
   \<and> (activeTheme s \<in> {''forest'', ''winter''} \<longrightarrow>
        activeTheme (changeTheme s) \<noteq> activeTheme s)"
  by (simp add: changeTheme_def getItem_def)

theorem changeTheme_flips_in_memory_only_witness:
  "activeTheme (setTheme world0) = ''forest''
   \<and> activeTheme (changeTheme (setTheme world0)) = ''winter''
   \<and> activeTheme (changeTheme (changeTheme (setTheme world0))) = ''forest''
   \<and> browser (changeTheme (setTheme world0)) = browser (setTheme world0)
   \<and> activeTheme (setTheme world_dracula) = ''dracula''
   \<and> activeTheme (changeTheme (setTheme world_dracula)) = ''forest''
   \<and> getItem ''theme'' (changeTheme (setTheme world_dracula)) = Some ''dracula''"
proof -
  have f: "activeTheme (setTheme world0) = ''forest''"
    by (simp add: setTheme_def setItem_def getItem_def or_default_def world0_def)
  have d: "activeTheme (setTheme world_dracula) = ''dracula''"
    by (simp add: setTheme_def setItem_def getItem_def or_default_def world0_def
          world_dracula_def)
  have k: "getItem ''theme'' (setTheme world_dracula) = Some ''dracula''"
    by (simp add: setTheme_def setItem_def getItem_def or_default_def world0_def
          world_dracula_def)
  from changeTheme_flips_in_memory_only [of "setTheme world0"]
       changeTheme_flips_in_memory_only [of "changeTheme (setTheme world0)"]
       changeTheme_flips_in_memory_only [of "setTheme world_dracula"]
  show ?thesis
    using f d k by simp
qed

text \<open>
  C2, as the specification words it, fails: after the theme has been resolved to 'forest'
  and stored, a call of changeTheme makes 'winter' the active theme while the 'theme' key
  of localStorage still holds 'forest'.
\<close>

theorem changeTheme_persists_counterexample:
  "activeTheme (changeTheme (setTheme world0)) = ''winter''
   \<and> getItem ''theme'' (changeTheme (setTheme world0)) = Some ''forest''"
  by (simp add: changeTheme_def setTheme_def setItem_def getItem_def or_default_def world0_def)

section \<open>User store: properties\<close>

text \<open>
  C1, as the code has it. With no profile held, updateUser sends no request and leaves the
  state as it is; the TypeError of reading \<open>id\<close> of null is raised inside the try block,
  so the catch clause turns it into the normalized Error, whose message is the
  TypeError's message, or the fallback text when that message is empty.
\<close>

theorem updateUser_without_profile:
  "userData s = None \<Longrightarrow>
     updateUser h pb newData s =
       (Inl (Error (if null_read_message h ''id'' = []
                    then ''Failed to update user data. Please try again.''
                    else null_read_message h ''id'')), s)"
  by (simp add: updateUser_def rethrow_def or_default_def)

theorem updateUser_without_profile_witness:
  "userData world0 = None
   \<and> updateUser host_utc pb_accept (FormData [(''name'', ''Ann'')]) world0 =
       (Inl (Error ''Cannot read properties of null (reading id)''), world0)"
proof -
  have h: "userData world0 = None"
    by (simp add: world0_def)
  from updateUser_without_profile [OF h, of host_utc pb_accept "FormData [(''name'', ''Ann'')]"]
  show ?thesis
    using h by (simp add: host_utc_def)
qed

text \<open>
  C1, as the specification words it, fails: called in the initial state, where no profile
  is held, updateUser raises an Error carrying a message, not a TypeError.
\<close>

theorem updateUser_fatal_fault_counterexample:
  "userData world0 = None
   \<and> fst (updateUser host_utc pb_accept (FormData []) world0)
       = Inl (Error ''Cannot read properties of null (reading id)'')"
  by (simp add: updateUser_def rethrow_def or_default_def world0_def host_utc_def)

text \<open>
  C7. When a profile is held and the update request succeeds, updateUser returns true and
  the held profile is the one held before: neither the argument nor the answer of the
  server is stored. The active theme is unchanged as well.
\<close>

theorem updateUser_success_keeps_profile:
  "userData s = Some u \<Longrightarrow>
   fst (update pb ''users'' (id' u) newData (browser s)) = Inr () \<Longrightarrow>
     fst (updateUser h pb newData s) = Inr True
     \<and> userData (snd (updateUser h pb newData s)) = Some u
     \<and> activeTheme (snd (updateUser h pb newData s)) = activeTheme s"
  by (auto simp: updateUser_def split: prod.splits sum.splits)

theorem updateUser_success_keeps_profile_witness:
  "userData world_ann = Some ann_profile
   \<and> fst (update pb_accept ''users'' (id' ann_profile)
            (Profile (ann_profile\<lparr>name := ''Ann B''\<rparr>)) (browser world_ann)) = Inr ()
   \<and> fst (updateUser host_utc pb_accept (Profile (ann_profile\<lparr>name := ''Ann B''\<rparr>)) world_ann)
       = Inr True
   \<and> userData (snd (updateUser host_utc pb_accept
                       (Profile (ann_profile\<lparr>name := ''Ann B''\<rparr>)) world_ann))
       = Some ann_profile"
proof -
  have h: "fst (update pb_accept ''users'' (id' ann_profile)
                  (Profile (ann_profile\<lparr>name := ''Ann B''\<rparr>)) (browser world_ann)) = Inr ()"
    by (simp add: pb_accept_def)
  from updateUser_success_keeps_profile [OF world_ann_userData h, of host_utc]
  show ?thesis
    using h world_ann_userData by simp
qed

section \<open>Authentication store: properties\<close>

text \<open>
  C6. In every state, when the session of the client is not valid, and also when it is valid
  and the refresh request fails, authRefresh returns without raising and leaves no profile
  held, the auth store of the client cleared and the key \<open>pocketbase_auth\<close> absent from
  localStorage.
\<close>

theorem authRefresh_forced_logout:
  "\<not> isValid pb (pb_authStore (browser s))
   \<or> isl (fst (authRefresh_request pb ''users'' (browser s))) \<Longrightarrow>
     fst (authRefresh h pb s) = Inr ()
     \<and> userData (snd (authRefresh h pb s)) = None
     \<and> pb_authStore (browser (snd (authRefresh h pb s))) = \<lparr>as_token = [], as_record = None\<rparr>
     \<and> getItem ''pocketbase_auth'' (snd (authRefresh h pb s)) = None"
  by (auto simp: authRefresh_def clearUser_def removeItem_def authStore_clear_def getItem_def
           split: prod.splits sum.splits)

theorem authRefresh_forced_logout_witness:
  "userData world_ann = Some ann_profile
   \<and> isValid pb_reject (pb_authStore (browser world_ann))
   \<and> isl (fst (authRefresh_request pb_reject ''users'' (browser world_ann)))
   \<and> fst (authRefresh host_utc pb_reject world_ann) = Inr ()
   \<and> userData (snd (authRefresh host_utc pb_reject world_ann)) = None
   \<and> getItem ''pocketbase_auth'' (snd (authRefresh host_utc pb_reject world_ann)) = None
   \<and> \<not> isValid pb_accept (pb_authStore (browser world0))
   \<and> fst (authRefresh host_utc pb_accept world0) = Inr ()
   \<and> userData (snd (authRefresh host_utc pb_accept world0)) = None"
proof -
  have h1: "isl (fst (authRefresh_request pb_reject ''users'' (browser world_ann)))"
    by (simp add: pb_reject_def)
  have h2: "\<not> isValid pb_accept (pb_authStore (browser world0))"
    by (simp add: pb_accept_def world0_def)
  have v: "isValid pb_reject (pb_authStore (browser world_ann))"
    by (simp add: pb_reject_def world_ann_authStore)
  from authRefresh_forced_logout [of pb_reject world_ann host_utc]
       authRefresh_forced_logout [of pb_accept world0 host_utc]
  show ?thesis
    using h1 h2 v world_ann_userData by simp
qed

subsection \<open>What normalization does to the state\<close>

lemma mapAuthDataToUser_state:
  "snd (mapAuthDataToUser h pb a s) =
     (if rec_themeMode (objects (browser s) (auth_record a)) = []
      then write_themeMode (auth_record a) (activeTheme s) s else s)"
  by (simp add: mapAuthDataToUser_def Let_def)

lemma mapAuthDataToUser_themeMode:
  "themeMode (fst (mapAuthDataToUser h pb a s)) =
     (if rec_themeMode (objects (browser s) (auth_record a)) = []
      then activeTheme s else rec_themeMode (objects (browser s) (auth_record a)))"
  by (simp add: mapAuthDataToUser_def Let_def write_themeMode_def)

lemma mapAuthDataToUser_stores:
  "userData (snd (mapAuthDataToUser h pb a s)) = userData s"
  "activeTheme (snd (mapAuthDataToUser h pb a s)) = activeTheme s"
  by (simp_all add: mapAuthDataToUser_state write_themeMode_def)

lemma write_themeMode_objects:
  "objects (browser (write_themeMode r v s)) =
     (objects (browser s))(r := (objects (browser s) r)\<lparr>rec_themeMode := v\<rparr>)"
  by (simp add: write_themeMode_def)

lemma login_success:
  "authWithPassword pb ''users'' e p (browser s) = (Inr a, b) \<Longrightarrow>
     login h pb e p s =
       (Inr a, saveUserData (fst (mapAuthDataToUser h pb a (s\<lparr>browser := b\<rparr>)))
                 (snd (mapAuthDataToUser h pb a (s\<lparr>browser := b\<rparr>))))"
  by (simp add: login_def split_beta)

lemma loginWithGoogle_success:
  "authWithOAuth2 pb ''users'' ''google'' (browser s) = (Inr a, b) \<Longrightarrow>
     loginWithGoogle h pb s =
       (Inr a, saveUserData (fst (mapAuthDataToUser h pb a (s\<lparr>browser := b\<rparr>)))
                 (snd (mapAuthDataToUser h pb a (s\<lparr>browser := b\<rparr>))))"
  by (simp add: loginWithGoogle_def split_beta)

text \<open>
  C5, as the code has it. A record whose theme is the empty string is normalized to a
  profile whose theme is the active theme of the theme store, whatever that is; a record
  whose theme is a string that is not empty keeps it in the profile. So the theme of the
  profile is empty exactly when the theme of the record and the active theme are both
  empty: the code does not look at the active theme it substitutes.
\<close>

theorem mapAuthDataToUser_theme:
  "(rec_themeMode (objects (browser s) (auth_record a)) = [] \<longrightarrow>
      themeMode (fst (mapAuthDataToUser h pb a s)) = activeTheme s)
   \<and> (rec_themeMode (objects (browser s) (auth_record a)) \<noteq> [] \<longrightarrow>
      themeMode (fst (mapAuthDataToUser h pb a s))
        = rec_themeMode (objects (browser s) (auth_record a)))
   \<and> (themeMode (fst (mapAuthDataToUser h pb a s)) = [] \<longleftrightarrow>
        rec_themeMode (objects (browser s) (auth_record a)) = [] \<and> activeTheme s = [])"
  by (auto simp: mapAuthDataToUser_themeMode)

theorem mapAuthDataToUser_theme_witness:
  "rec_themeMode (objects (browser world_signed) (auth_record ann_auth)) = []
   \<and> activeTheme world_signed = ''forest''
   \<and> themeMode (fst (mapAuthDataToUser host_utc pb_accept ann_auth world_signed)) = ''forest''
   \<and> activeTheme (changeTheme world_ann) = ''winter''
   \<and> rec_themeMode (objects (browser (changeTheme world_ann)) (auth_record ann_auth)) = ''forest''
   \<and> themeMode (fst (mapAuthDataToUser host_utc pb_accept ann_auth (changeTheme world_ann)))
       = ''forest''"
proof -
  have a: "activeTheme world_signed = ''forest''"
    by (simp add: world_signed_def world0_def)
  have b: "browser (changeTheme world_ann) = browser world_ann"
    by (simp add: changeTheme_def)
  have c: "activeTheme (changeTheme world_ann) = ''winter''"
    by (simp add: changeTheme_def world_ann_activeTheme)
  from mapAuthDataToUser_theme [of world_signed ann_auth host_utc pb_accept]
       mapAuthDataToUser_theme [of "changeTheme world_ann" ann_auth host_utc pb_accept]
  show ?thesis
    using a b c
    by (simp add: ann_auth_def world_signed_record world_ann_record ann_record_def)
qed

text \<open>
  C5, as the specification words it, fails. saveUserData is exported and stores any
  profile; after it has stored one whose theme is empty, setTheme makes the empty string
  the active theme, and a record with an empty theme is then normalized to a profile with
  an empty theme.
\<close>

theorem mapAuthDataToUser_empty_theme_counterexample:
  "activeTheme world_unthemed = []
   \<and> rec_themeMode (objects (browser world_unthemed) (auth_record ann_auth)) = []
   \<and> themeMode (fst (mapAuthDataToUser host_utc pb_accept ann_auth world_unthemed)) = []"
  by code_simp

subsection \<open>The date of the scenario record\<close>

lemma calendar_samples:
  "civil_from_days 0 = (1970, 1, 1)"
  "civil_from_days (- 1) = (1969, 12, 31)"
  "civil_from_days 11016 = (2000, 2, 29)"
  "civil_from_days 11017 = (2000, 3, 1)"
  "days_from_civil 1970 1 1 = 0"
  "days_from_civil 2000 2 29 = 11016"
  "days_from_civil 2024 3 5 = 19787"
  by code_simp+

lemma parse_ann_created: "parse_iso_utc ''2024-03-05T00:00:00Z'' = Some 1709596800000"
  by code_simp

lemma Date_parse_ann_created: "Date_parse h ''2024-03-05T00:00:00Z'' = Some 1709596800000"
  by (simp add: Date_parse_def parse_ann_created TimeClip_def)

lemma Day_of_creation:
  "0 \<le> z \<Longrightarrow> z < 86400000 \<Longrightarrow> Day (1709596800000 + z) = 19787"
  unfolding Day_def msPerDay_def by (rule int_div_pos_eq [where r = z]) simp_all

lemma Day_before_creation:
  "- 86400000 \<le> z \<Longrightarrow> z < 0 \<Longrightarrow> Day (1709596800000 + z) = 19786"
  unfolding Day_def msPerDay_def by (rule int_div_pos_eq [where r = "z + 86400000"]) simp_all

lemma civil_19787: "civil_from_days 19787 = (2024, 3, 5)"
  by code_simp

lemma civil_19786: "civil_from_days 19786 = (2024, 3, 4)"
  by code_simp

lemma text_2024: "String_number (Some 2024) = ''2024''"
  by code_simp

lemma text_03: "padStart 2 ''0'' (String_number (Some 3)) = ''03''"
  by code_simp

lemma text_04: "padStart 2 ''0'' (String_number (Some 4)) = ''04''"
  by code_simp

lemma text_05: "padStart 2 ''0'' (String_number (Some 5)) = ''05''"
  by code_simp

lemma format_created_ann:
  assumes "- 86400000 \<le> LocalTZA h 1709596800000" "LocalTZA h 1709596800000 < 86400000"
  shows "format_created h ''2024-03-05T00:00:00Z'' =
           (if 0 \<le> LocalTZA h 1709596800000 then ''05-03-2024'' else ''04-03-2024'')"
proof (cases "0 \<le> LocalTZA h 1709596800000")
  case True
  with assms have "Day (LocalTime h 1709596800000) = 19787"
    by (simp add: LocalTime_def Day_of_creation)
  with True show ?thesis
    by (simp add: format_created_def Date_parse_ann_created getDate_def getMonth_def
          getFullYear_def DateFromTime_def MonthFromTime_def YearFromTime_def civil_19787
          text_2024 text_03 text_05)
next
  case False
  with assms have "Day (LocalTime h 1709596800000) = 19786"
    by (simp add: LocalTime_def Day_before_creation)
  with False show ?thesis
    by (simp add: format_created_def Date_parse_ann_created getDate_def getMonth_def
          getFullYear_def DateFromTime_def MonthFromTime_def YearFromTime_def civil_19786
          text_2024 text_03 text_04)
qed

text \<open>
  C3, as the code has it. For the record of the scenario and the token \<open>tok1\<close>, the
  profile has the id, name and email of the record, an empty avatar, the active theme of
  the theme store as its theme, empty password fields and no pending file. Its creation date
  is the calendar date of the instant 2024-03-05T00:00:00Z in the local time zone of the
  host, because the code reads it with \<open>getDate\<close>, \<open>getMonth\<close> and \<open>getFullYear\<close>:
  \<open>05-03-2024\<close> when the local offset at that instant is zero or east of UTC, and
  \<open>04-03-2024\<close> when it is west of UTC (offsets are less than a day).
\<close>

theorem mapAuthDataToUser_scenario:
  assumes "objects (browser s) (auth_record a) = ann_record"
    and "auth_token a = ''tok1''"
    and "- 86400000 \<le> LocalTZA h 1709596800000"
    and "LocalTZA h 1709596800000 < 86400000"
  shows "fst (mapAuthDataToUser h pb a s) =
           \<lparr>id' = ''u1'', token = ''tok1'', name = ''Ann'', email = ''a@x.com'',
            avatar = [],
            created = (if 0 \<le> LocalTZA h 1709596800000 then ''05-03-2024'' else ''04-03-2024''),
            themeMode = activeTheme s,
            password = [], passwordConfirm = [], oldPassword = [], avatarFile = None\<rparr>"
  using assms(1,2) format_created_ann [OF assms(3,4)]
  by (simp add: mapAuthDataToUser_def Let_def write_themeMode_def ann_record_def)

theorem mapAuthDataToUser_scenario_witness:
  "objects (browser world_signed) (auth_record ann_auth) = ann_record
   \<and> auth_token ann_auth = ''tok1''
   \<and> LocalTZA host_utc 1709596800000 = 0
   \<and> fst (mapAuthDataToUser host_utc pb_accept ann_auth world_signed) = ann_profile"
proof -
  have r: "objects (browser world_signed) (auth_record ann_auth) = ann_record"
    by (simp add: ann_auth_def world_signed_record)
  have t: "auth_token ann_auth = ''tok1''"
    by (simp add: ann_auth_def)
  have z: "LocalTZA host_utc 1709596800000 = 0"
    by (simp add: host_utc_def)
  have a: "activeTheme world_signed = ''forest''"
    by (simp add: world_signed_def world0_def)
  from mapAuthDataToUser_scenario [OF r t, of host_utc pb_accept]
  show ?thesis
    using r t z a by (simp add: ann_profile_def)
qed

text \<open>
  C3, as the specification words it, fails on a host five hours west of UTC: the instant
  is 19:00 of March 4 there, and the profile's creation date is \<open>04-03-2024\<close>.
\<close>

theorem mapAuthDataToUser_created_counterexample:
  "objects (browser world_signed) (auth_record ann_auth) = ann_record
   \<and> auth_token ann_auth = ''tok1''
   \<and> created (fst (mapAuthDataToUser host_west pb_accept ann_auth world_signed)) = ''04-03-2024''"
  by code_simp

subsection \<open>The record object after normalization\<close>

lemma mapAuthDataToUser_overwrites:
  "rec_themeMode (objects (browser s) (auth_record a)) = [] \<Longrightarrow>
     objects (browser (snd (mapAuthDataToUser h pb a s))) =
       (objects (browser s))
         (auth_record a := (objects (browser s) (auth_record a))\<lparr>rec_themeMode := activeTheme s\<rparr>)"
  by (simp add: mapAuthDataToUser_state write_themeMode_objects)

lemma mapAuthDataToUser_twice:
  "snd (mapAuthDataToUser h pb a (snd (mapAuthDataToUser h' pb' a s)))
     = snd (mapAuthDataToUser h' pb' a s)"
  by (simp add: mapAuthDataToUser_state write_themeMode_def)

lemma saveUserData_frame [simp]:
  "browser (saveUserData u s) = browser s" "activeTheme (saveUserData u s) = activeTheme s"
  by (simp_all add: saveUserData_def)

lemma mapAuthDataToUser_after_save:
  "snd (mapAuthDataToUser h pb a (saveUserData u s)) = saveUserData u (snd (mapAuthDataToUser h pb a s))"
  by (simp add: mapAuthDataToUser_state write_themeMode_def saveUserData_def)

lemma createAccount_success:
  assumes "create pb ''users''
             \<lparr>body_email = new_email n, body_emailVisibility = False, body_name = new_name n,
              body_themeMode = new_themeMode n, body_password = new_password n,
              body_passwordConfirm = new_passwordConfirm n\<rparr> (browser s) = (Inr (), b0)"
    and "authWithPassword pb ''users'' (new_email n) (new_password n) b0 = (Inr a, b)"
  shows "fst (createAccount h pb n s) = Inr a"
    and "browser (snd (createAccount h pb n s))
           = browser (snd (mapAuthDataToUser h pb a (s\<lparr>browser := b\<rparr>)))"
proof -
  have l: "login h pb (new_email n) (new_password n) (s\<lparr>browser := b0\<rparr>) =
       (Inr a, saveUserData (fst (mapAuthDataToUser h pb a (s\<lparr>browser := b\<rparr>)))
                 (snd (mapAuthDataToUser h pb a (s\<lparr>browser := b\<rparr>))))"
    using login_success [of pb "new_email n" "new_password n" "s\<lparr>browser := b0\<rparr>" a b h] assms(2)
    by simp
  show "fst (createAccount h pb n s) = Inr a"
    using assms(1) l by (simp add: createAccount_def split_beta)
  show "browser (snd (createAccount h pb n s))
           = browser (snd (mapAuthDataToUser h pb a (s\<lparr>browser := b\<rparr>)))"
    using assms(1) l
    by (simp add: createAccount_def split_beta mapAuthDataToUser_after_save mapAuthDataToUser_twice)
qed

text \<open>
  C10. When the theme of the record behind \<open>authData.record\<close> is the empty string,
  mapAuthDataToUser overwrites the theme of that record object with the active theme.
  login, loginWithGoogle and createAccount return the authentication result the client
  gave them, with the same reference, so that their caller finds the overwritten record
  behind it.
\<close>

theorem normalization_writes_to_record:
  "rec_themeMode (objects b (auth_record a)) = [] \<Longrightarrow>
     objects (browser (snd (mapAuthDataToUser h pb a (s\<lparr>browser := b\<rparr>)))) (auth_record a)
       = (objects b (auth_record a))\<lparr>rec_themeMode := activeTheme s\<rparr>
     \<and> (authWithPassword pb ''users'' e p (browser s) = (Inr a, b) \<longrightarrow>
          fst (login h pb e p s) = Inr a
          \<and> objects (browser (snd (login h pb e p s))) (auth_record a)
              = (objects b (auth_record a))\<lparr>rec_themeMode := activeTheme s\<rparr>)
     \<and> (authWithOAuth2 pb ''users'' ''google'' (browser s) = (Inr a, b) \<longrightarrow>
          fst (loginWithGoogle h pb s) = Inr a
          \<and> objects (browser (snd (loginWithGoogle h pb s))) (auth_record a)
              = (objects b (auth_record a))\<lparr>rec_themeMode := activeTheme s\<rparr>)
     \<and> (create pb ''users''
             \<lparr>body_email = new_email n, body_emailVisibility = False, body_name = new_name n,
              body_themeMode = new_themeMode n, body_password = new_password n,
              body_passwordConfirm = new_passwordConfirm n\<rparr> (browser s) = (Inr (), b0)
          \<and> authWithPassword pb ''users'' (new_email n) (new_password n) b0 = (Inr a, b) \<longrightarrow>
          fst (createAccount h pb n s) = Inr a
          \<and> objects (browser (snd (createAccount h pb n s))) (auth_record a)
              = (objects b (auth_record a))\<lparr>rec_themeMode := activeTheme s\<rparr>)"
  by (simp add: mapAuthDataToUser_overwrites login_success loginWithGoogle_success
        createAccount_success)

theorem normalization_writes_to_record_witness:
  "rec_themeMode (objects (snd (sign_in (browser world0))) (auth_record ann_auth)) = []
   \<and> authWithPassword pb_accept ''users'' ''a@x.com'' ''secret'' (browser world0)
       = (Inr ann_auth, snd (sign_in (browser world0)))
   \<and> fst (login host_utc pb_accept ''a@x.com'' ''secret'' world0) = Inr ann_auth
   \<and> rec_themeMode (objects (browser (snd (login host_utc pb_accept ''a@x.com'' ''secret'' world0)))
         (auth_record ann_auth)) = ''forest''
   \<and> fst (loginWithGoogle host_utc pb_accept world0) = Inr ann_auth
   \<and> rec_themeMode (objects (browser (snd (loginWithGoogle host_utc pb_accept world0)))
         (auth_record ann_auth)) = ''forest''
   \<and> fst (createAccount host_utc pb_accept ann_new world0) = Inr ann_auth
   \<and> rec_themeMode (objects (browser (snd (createAccount host_utc pb_accept ann_new world0)))
         (auth_record ann_auth)) = ''forest''"
proof -
  have e: "rec_themeMode (objects (snd (sign_in (browser world0))) (auth_record ann_auth)) = []"
    by (simp add: sign_in_def ann_auth_def ann_record_def)
  have l: "authWithPassword pb_accept ''users'' ''a@x.com'' ''secret'' (browser world0)
             = (Inr ann_auth, snd (sign_in (browser world0)))"
    by (simp add: pb_accept_def sign_in_def ann_auth_def)
  have g: "authWithOAuth2 pb_accept ''users'' ''google'' (browser world0)
             = (Inr ann_auth, snd (sign_in (browser world0)))"
    by (simp add: pb_accept_def sign_in_def ann_auth_def)
  have c: "create pb_accept ''users''
             \<lparr>body_email = new_email ann_new, body_emailVisibility = False,
              body_name = new_name ann_new, body_themeMode = new_themeMode ann_new,
              body_password = new_password ann_new,
              body_passwordConfirm = new_passwordConfirm ann_new\<rparr> (browser world0)
             = (Inr (), browser world0)"
    by (simp add: pb_accept_def)
  have l': "authWithPassword pb_accept ''users'' (new_email ann_new) (new_password ann_new)
              (browser world0) = (Inr ann_auth, snd (sign_in (browser world0)))"
    by (simp add: pb_accept_def sign_in_def ann_auth_def)
  have a: "activeTheme world0 = ''forest''"
    by (simp add: world0_def)
  from normalization_writes_to_record
         [OF e, of host_utc pb_accept world0 "''a@x.com''" "''secret''" ann_new "browser world0"]
  show ?thesis
    using e l g c l' a by simp
qed

section \<open>Change detection: properties\<close>

subsection \<open>JSON texts determine their strings\<close>

lemma of_char_hex_digit: "n < 16 \<Longrightarrow> (of_char (hex_digit n) :: nat) = (if n < 10 then 48 + n else 87 + n)"
  by (simp add: hex_digit_def)

lemma hex_digit_inj: 
  assumes "n < 16" "m < 16" "hex_digit n = hex_digit m" shows "n = m"
proof -
  from assms(3) have "(of_char (hex_digit n) :: nat) = of_char (hex_digit m)" by simp
  with assms(1,2) show ?thesis by (simp add: of_char_hex_digit split: if_splits)
qed

lemma escape_char_nonempty: "escape_char c \<noteq> []"
  by (simp add: escape_char_def)

lemma escape_char_hd: "hd (escape_char c) \<noteq> CHR 0x22"
  by (simp add: escape_char_def)

lemma char_of_low: assumes "(of_char c :: nat) div 16 = of_char d div 16" "(of_char c :: nat) mod 16 = of_char d mod 16"
  shows "c = d"
proof -
  have "(of_char c :: nat) = of_char d" using assms by (metis div_mult_mod_eq)
  then show ?thesis by simp
qed

lemma escape_char_prefix:
  "escape_char c @ u = escape_char d @ v \<Longrightarrow> c = d"
  unfolding escape_char_def
  by (auto split: if_splits dest!: hex_digit_inj[rotated 2] intro: char_of_low)

lemma escaped_body_inj:
  "concat (map escape_char x) @ CHR 0x22 # r = concat (map escape_char y) @ CHR 0x22 # r'
     \<Longrightarrow> x = y \<and> r = r'"
proof (induction x arbitrary: y)
  case Nil
  show ?case
  proof (cases y)
    case Nil
    with Nil.prems show ?thesis by simp
  next
    case (Cons d ys)
    with Nil.prems have "CHR 0x22 = hd (escape_char d)"
      by (cases "escape_char d") (simp_all add: escape_char_nonempty)
    with escape_char_hd [of d] show ?thesis by simp
  qed
next
  case (Cons c xs)
  show ?case
  proof (cases y)
    case Nil
    with Cons.prems have "CHR 0x22 = hd (escape_char c)"
      by (cases "escape_char c") (simp_all add: escape_char_nonempty)
    with escape_char_hd [of c] show ?thesis by simp
  next
    case (Cons d ys)
    with Cons.prems have e: "escape_char c @ (concat (map escape_char xs) @ CHR 0x22 # r)
        = escape_char d @ (concat (map escape_char ys) @ CHR 0x22 # r')"
      by simp
    then have cd: "c = d" by (rule escape_char_prefix)
    with e have "concat (map escape_char xs) @ CHR 0x22 # r
        = concat (map escape_char ys) @ CHR 0x22 # r'" by simp
    from Cons.IH [OF this] cd Cons show ?thesis by simp
  qed
qed

lemma QuoteJSONString_append_eq:
  "QuoteJSONString x @ r = QuoteJSONString y @ r' \<longleftrightarrow> x = y \<and> r = r'"
  using escaped_body_inj [of x r y r'] by (auto simp: QuoteJSONString_def)

lemma JSON_stringify_UserType_eq:
  "JSON_stringify (UserType_object d) = JSON_stringify (UserType_object u) \<longleftrightarrow>
     id' d = id' u \<and> token d = token u \<and> name d = name u \<and> email d = email u
     \<and> avatar d = avatar u \<and> created d = created u \<and> themeMode d = themeMode u
     \<and> password d = password u \<and> passwordConfirm d = passwordConfirm u
     \<and> oldPassword d = oldPassword u
     \<and> (avatarFile d = None \<longleftrightarrow> avatarFile u = None)"
  by (simp add: UserType_object_def QuoteJSONString_append_eq split: option.splits)

lemma JSON_stringify_UserType_not_null:
  "JSON_stringify (UserType_object d) \<noteq> ''null''"
  by (simp add: UserType_object_def)

lemma held_value_ann: "held_value world_ann = UserType_object ann_profile"
  by (simp add: world_ann_userData held_value_def)

text \<open>
  C4, as the code has it. userDataHasEdited compares the JSON texts of the candidate and
  of the held value. For a candidate with its properties in the order of the held profile
  it is false exactly when the ten string fields are equal and \<open>avatarFile\<close> is null in
  both or a File in both (a File is written \<open>{}\<close> whatever it holds); so it is false for
  the held profile itself and true when any string field differs or only one side has a
  pending file. With no profile held it is true.
\<close>

theorem userDataHasEdited_compares_serializations:
  "userDataHasEdited (UserType_object d) s =
     (case userData s of
        None \<Rightarrow> True
      | Some u \<Rightarrow>
          \<not> (id' d = id' u \<and> token d = token u \<and> name d = name u \<and> email d = email u
             \<and> avatar d = avatar u \<and> created d = created u \<and> themeMode d = themeMode u
             \<and> password d = password u \<and> passwordConfirm d = passwordConfirm u
             \<and> oldPassword d = oldPassword u
             \<and> (avatarFile d = None \<longleftrightarrow> avatarFile u = None)))"
  by (simp add: userDataHasEdited_def held_value_def JSON_stringify_UserType_eq
        JSON_stringify_UserType_not_null split: option.splits)

theorem userDataHasEdited_compares_serializations_witness:
  "userData world_ann = Some ann_profile
   \<and> \<not> userDataHasEdited (UserType_object ann_profile) world_ann
   \<and> userDataHasEdited (UserType_object (ann_profile\<lparr>name := ''Ann B''\<rparr>)) world_ann
   \<and> userDataHasEdited (UserType_object (ann_profile\<lparr>password := ''x''\<rparr>)) world_ann
   \<and> userDataHasEdited (UserType_object (ann_profile\<lparr>avatarFile := Some (File ''a.png'')\<rparr>)) world_ann
   \<and> userDataHasEdited (UserType_object ann_profile) world0"
proof -
  have n: "userData world0 = None"
    by (simp add: world0_def)
  from userDataHasEdited_compares_serializations [of _ world_ann]
       userDataHasEdited_compares_serializations [of ann_profile world0]
  show ?thesis
    using n by (simp add: world_ann_userData ann_profile_def)
qed

lemma deep_equal_ann_candidate: "deep_equal ann_candidate (UserType_object ann_profile)"
  by code_simp

lemma stringify_ann_candidate:
  "JSON_stringify ann_candidate \<noteq> JSON_stringify (UserType_object ann_profile)"
  by code_simp

text \<open>
  C4, as the specification words it, fails: a candidate that is deep-equal to the held
  profile, built with its properties in another order, is reported as edited.
\<close>

theorem userDataHasEdited_deep_equality_counterexample:
  "userData world_ann = Some ann_profile
   \<and> deep_equal ann_candidate (held_value world_ann)
   \<and> userDataHasEdited ann_candidate world_ann"
  by (simp add: world_ann_userData held_value_ann deep_equal_ann_candidate
        stringify_ann_candidate userDataHasEdited_def)

end
